theory Spec2Isabelle
  imports Complex_Main
begin

section \<open>JavaScript values\<close>

text \<open>
  A string-valued property that may be missing is a \<open>string option\<close>: \<open>None\<close> stands
  for \<open>undefined\<close> (or \<open>null\<close>), \<open>Some s\<close> for the string \<open>s\<close>.  JavaScript treats
  \<open>undefined\<close>, \<open>null\<close> and the empty string as falsy and every other string as truthy.
\<close>

definition truthy :: "string option \<Rightarrow> bool" where
  "truthy v = (case v of None \<Rightarrow> False | Some s \<Rightarrow> s \<noteq> [])"

text \<open>\<^verbatim>\<open>a && b\<close> and \<^verbatim>\<open>a || b\<close> return one of their operands.\<close>

definition js_and :: "string option \<Rightarrow> string option \<Rightarrow> string option" where
  "js_and a b = (if truthy a then b else a)"

definition js_or :: "string option \<Rightarrow> string option \<Rightarrow> string option" where
  "js_or a b = (if truthy a then a else b)"

text \<open>The bodies passed to \<^verbatim>\<open>res.send\<close> are JSON values.\<close>

datatype json = JString string | JBool bool | JObject "(string \<times> json) list"

text \<open>
  An exception object with its \<^verbatim>\<open>message\<close> property: one created by \<^verbatim>\<open>new Error(msg)\<close>,
  or the \<^verbatim>\<open>TypeError\<close> the runtime throws when a property of \<^verbatim>\<open>undefined\<close> is read.
\<close>

datatype js_error = Error (message: string) | TypeError (message: string)

section \<open>The Tink service (tink-service)\<close>

text \<open>
  The members of \<^verbatim>\<open>SecretName\<close> that the service uses; their values are the names under
  which the credential modal stores the three secrets.
\<close>

definition tink_clientId :: string where
  "tink_clientId = ''tink_clientId''"

definition tink_clientSecret :: string where
  "tink_clientSecret = ''tink_clientSecret''"

definition tink_market :: string where
  "tink_market = ''tink_market''"

text \<open>The placeholder client object built by \<^verbatim>\<open>getTinkClient\<close>.\<close>

datatype tink_client = TinkClient (client_clientId: "string option") (client_clientSecret: "string option")

text \<open>
  The state the service reads and writes: the credential store, the module-level
  variable \<^verbatim>\<open>tinkClient\<close> (\<open>None\<close> for its initial \<^verbatim>\<open>null\<close>) and the lines written with
  \<^verbatim>\<open>console.error\<close>.
\<close>

record world =
  secrets :: "string \<rightharpoonup> string"
  tinkClient :: "tink_client option"
  console :: "string list"

text \<open>
  Modelled from the spec: \<^verbatim>\<open>secretsService\<close> is imported from the secrets service, whose
  code lies outside this package.  The spec describes the credential store as exposing
  \<^verbatim>\<open>get(name) -> string | undefined\<close>: a lookup in a map from secret names to values.
\<close>

definition secrets_get :: "world \<Rightarrow> string \<Rightarrow> string option" where
  "secrets_get w name = secrets w name"

definition console_error :: "string \<Rightarrow> world \<Rightarrow> world" where
  "console_error line w = w\<lparr>console := console w @ [line]\<rparr>"

definition getTinkClient :: "world \<Rightarrow> tink_client \<times> world" where
  "getTinkClient w =
     (case tinkClient w of
        None \<Rightarrow>
          (let clientId = secrets_get w tink_clientId;
               clientSecret = secrets_get w tink_clientSecret;
               client = TinkClient clientId clientSecret
           in (client, w\<lparr>tinkClient := Some client\<rparr>))
      | Some client \<Rightarrow> (client, w))"

definition isConfigured :: "world \<Rightarrow> bool" where
  "isConfigured w =
     (let clientId = secrets_get w tink_clientId;
          clientSecret = secrets_get w tink_clientSecret
      in truthy (js_and clientId clientSecret))"

text \<open>
  An \<^verbatim>\<open>async\<close> function either resolves with a value (\<open>Inr\<close>) or rejects with the
  exception thrown in its body (\<open>Inl\<close>).  The \<^verbatim>\<open>try\<close> block and the \<^verbatim>\<open>catch\<close> clause of
  each operation are kept apart.
\<close>

definition getAccounts_try :: "world \<Rightarrow> (js_error + json) \<times> world" where
  "getAccounts_try w =
     (let (client, w1) = getTinkClient w
      in (Inl (Error ''Tink account fetching not yet implemented''), w1))"

definition getAccounts :: "world \<Rightarrow> (js_error + json) \<times> world" where
  "getAccounts w =
     (case getAccounts_try w of
        (Inl error, w1) \<Rightarrow>
          (Inl error, console_error (''Error fetching Tink accounts: '' @ message error) w1)
      | (Inr accounts, w1) \<Rightarrow> (Inr accounts, w1))"

definition getTransactions_try ::
  "string option \<Rightarrow> string option \<Rightarrow> world \<Rightarrow> (js_error + json) \<times> world" where
  "getTransactions_try accountId startDate w =
     (let (client, w1) = getTinkClient w
      in (Inl (Error ''Tink transaction fetching not yet implemented''), w1))"

definition getTransactions ::
  "string option \<Rightarrow> string option \<Rightarrow> world \<Rightarrow> (js_error + json) \<times> world" where
  "getTransactions accountId startDate w =
     (case getTransactions_try accountId startDate w of
        (Inl error, w1) \<Rightarrow>
          (Inl error, console_error (''Error fetching Tink transactions: '' @ message error) w1)
      | (Inr result, w1) \<Rightarrow> (Inr result, w1))"

section \<open>The HTTP route handlers (app-tink)\<close>

record request_body =
  accountId :: "string option"
  startDate :: "string option"

text \<open>\<open>body = None\<close> is a request whose \<^verbatim>\<open>req.body\<close> is missing.\<close>

record request =
  body :: "request_body option"

text \<open>
  Each route is registered as \<^verbatim>\<open>handleError(async (req, res) => ...)\<close>.  The wrapper is
  imported from the GoCardless utilities, outside this package: it runs the wrapped
  function, and what it sends when that function rejects is the parameter \<open>on_reject\<close>.
  A wrapped function that resolves has sent its own body with \<^verbatim>\<open>res.send\<close>.
\<close>

definition handleError ::
  "(js_error \<Rightarrow> json) \<Rightarrow> (request \<Rightarrow> world \<Rightarrow> (js_error + json) \<times> world)
     \<Rightarrow> request \<Rightarrow> world \<Rightarrow> json \<times> world" where
  "handleError on_reject func req w =
     (case func req w of
        (Inl err, w1) \<Rightarrow> (on_reject err, w1)
      | (Inr sent, w1) \<Rightarrow> (sent, w1))"

definition status_handler :: "request \<Rightarrow> world \<Rightarrow> (js_error + json) \<times> world" where
  "status_handler req w =
     (let configured = isConfigured w
      in (Inr (JObject [(''status'', JString ''ok''),
                        (''data'', JObject [(''configured'', JBool configured)])]), w))"

definition accounts_handler :: "request \<Rightarrow> world \<Rightarrow> (js_error + json) \<times> world" where
  "accounts_handler req w =
     (case getAccounts w of
        (Inr accounts, w1) \<Rightarrow>
          (Inr (JObject [(''status'', JString ''ok''),
                         (''data'', JObject [(''accounts'', accounts)])]), w1)
      | (Inl error, w1) \<Rightarrow>
          (Inr (JObject [(''status'', JString ''ok''),
                         (''data'', JObject [(''error'', JString (message error))])]), w1))"

definition transactions_handler :: "request \<Rightarrow> world \<Rightarrow> (js_error + json) \<times> world" where
  "transactions_handler req w =
     (let b = (case body req of
                 None \<Rightarrow> \<lparr>accountId = None, startDate = None\<rparr>
               | Some b \<Rightarrow> b)
      in case getTransactions (accountId b) (startDate b) w of
           (Inr result, w1) \<Rightarrow>
             (Inr (JObject [(''status'', JString ''ok''), (''data'', result)]), w1)
         | (Inl error, w1) \<Rightarrow>
             (Inr (JObject [(''status'', JString ''ok''),
                            (''data'', JObject [(''error'', JString (message error))])]), w1))"

definition post_status :: "(js_error \<Rightarrow> json) \<Rightarrow> request \<Rightarrow> world \<Rightarrow> json \<times> world" where
  "post_status on_reject = handleError on_reject status_handler"

definition post_accounts :: "(js_error \<Rightarrow> json) \<Rightarrow> request \<Rightarrow> world \<Rightarrow> json \<times> world" where
  "post_accounts on_reject = handleError on_reject accounts_handler"

definition post_transactions :: "(js_error \<Rightarrow> json) \<Rightarrow> request \<Rightarrow> world \<Rightarrow> json \<times> world" where
  "post_transactions on_reject = handleError on_reject transactions_handler"

section \<open>The transaction normalizer\<close>

text \<open>An object with an \<^verbatim>\<open>amount\<close> and a \<^verbatim>\<open>currency\<close>; the number type is a parameter.\<close>

record 'n money =
  amount :: 'n
  currency :: string

text \<open>
  A TrueLayer transaction as the normalizer receives it.  The properties the normalizer
  only copies have their documented types; the ones it inspects may be missing.
\<close>

record 'n tl_transaction =
  transaction_id :: string
  timestamp :: "string option"
  description :: "string option"
  amount :: 'n
  currency :: string
  transaction_type :: "string option"
  transaction_category :: "string option"
  merchant_name :: "string option"
  running_balance :: "'n money option"

record 'n bank_sync_transaction =
  transactionId :: string
  date :: "string option"
  payeeName :: "string option"
  "notes" :: "string option"
  booked :: bool
  transactionAmount :: "'n money"
  balanceAfterTransaction :: "'n money option"

text \<open>
  \<^verbatim>\<open>s.split(sep)\<close> for a separator of one character: the pieces between the occurrences
  of the separator, in order; a string without the separator is its own single piece.
\<close>

fun js_split :: "char \<Rightarrow> string \<Rightarrow> string list" where
  "js_split sep [] = [[]]"
| "js_split sep (c # cs) =
     (if c = sep then [] # js_split sep cs
      else (case js_split sep cs of
              [] \<Rightarrow> [[c]]
            | p # ps \<Rightarrow> (c # p) # ps))"

text \<open>\<^verbatim>\<open>xs[i]\<close> on an array is \<^verbatim>\<open>undefined\<close> out of range.\<close>

definition js_index :: "'a list \<Rightarrow> nat \<Rightarrow> 'a option" where
  "js_index xs i = (if i < length xs then Some (xs ! i) else None)"

text \<open>
  Reading \<^verbatim>\<open>.split\<close> of a missing \<^verbatim>\<open>timestamp\<close> throws a \<^verbatim>\<open>TypeError\<close>; every other
  property access of the body is a plain read.
\<close>

definition normalizeTrueLayerTransaction ::
  "'n tl_transaction \<Rightarrow> js_error + 'n bank_sync_transaction" where
  "normalizeTrueLayerTransaction tlTransaction =
     (case timestamp tlTransaction of
        None \<Rightarrow> Inl (TypeError ''Cannot read properties of undefined (reading 'split')'')
      | Some ts \<Rightarrow>
          Inr \<lparr>transactionId = transaction_id tlTransaction,
               date = js_index (js_split CHR ''T'' ts) 0,
               payeeName = js_or (merchant_name tlTransaction) (description tlTransaction),
               notes = description tlTransaction,
               booked = (transaction_type tlTransaction \<noteq> Some ''PENDING''),
               transactionAmount =
                 \<lparr>money.amount = tl_transaction.amount tlTransaction,
                  money.currency = tl_transaction.currency tlTransaction\<rparr>,
               balanceAfterTransaction =
                 (case running_balance tlTransaction of
                    Some rb \<Rightarrow> Some \<lparr>money.amount = money.amount rb,
                                        money.currency = money.currency rb\<rparr>
                  | None \<Rightarrow> None)\<rparr>)"

section \<open>The credential modal (TinkInitialiseModal)\<close>

text \<open>
  \<^verbatim>\<open>send('secret-set', {name, value})\<close> reaches the secrets backend of the host
  application: it is a parameter \<open>send\<close> that, from the backend's state, a name and a
  value, gives the reply (\<open>None\<close> for no reply object) and the backend's next state.  A
  reply carries the optional properties \<^verbatim>\<open>error\<close> and \<^verbatim>\<open>reason\<close>.
\<close>

datatype secret_reply = Reply (reply_error: "string option") (reply_reason: "string option")

text \<open>What the routine does to the outside, in the order it does it.\<close>

datatype effect = SecretSet string string | OnSuccess | Close

text \<open>The component's state, the backend behind \<^verbatim>\<open>send\<close> and the effects so far.\<close>

record 'b modal =
  clientId :: string
  clientSecret :: string
  market :: string
  isValid :: bool
  isLoading :: bool
  error :: string
  backend :: 'b
  effects :: "effect list"

text \<open>One \<^verbatim>\<open>(await send('secret-set', {name, value})) || {}\<close>.\<close>

definition send_secret_set ::
  "('b \<Rightarrow> string \<Rightarrow> string \<Rightarrow> secret_reply option \<times> 'b) \<Rightarrow> string \<Rightarrow> string
     \<Rightarrow> 'b modal \<Rightarrow> secret_reply \<times> 'b modal" where
  "send_secret_set send name val m =
     (let (reply, b) = send (backend m) name val
      in (case reply of None \<Rightarrow> Reply None None | Some r \<Rightarrow> r,
          m\<lparr>backend := b, effects := effects m @ [SecretSet name val]\<rparr>))"

text \<open>
  \<^verbatim>\<open>onSubmit\<close>.  The translation function \<^verbatim>\<open>t\<close> and \<^verbatim>\<open>getSecretsError\<close> are imported from
  other packages and are parameters.  Each \<^verbatim>\<open>setX\<close> of the component assigns the field
  \<open>X\<close>; \<^verbatim>\<open>onSuccess()\<close> and \<^verbatim>\<open>close()\<close> are recorded as effects.
\<close>

definition onSubmit ::
  "(string \<Rightarrow> string) \<Rightarrow> (string option \<Rightarrow> string option \<Rightarrow> string)
     \<Rightarrow> ('b \<Rightarrow> string \<Rightarrow> string \<Rightarrow> secret_reply option \<times> 'b)
     \<Rightarrow> 'b modal \<Rightarrow> 'b modal" where
  "onSubmit t getSecretsError send m =
     (if clientId m = [] \<or> clientSecret m = [] \<or> market m = [] then
        m\<lparr>isValid := False,
          error := t ''It is required to provide the client ID, client secret, and market.''\<rparr>
      else
        let m0 = m\<lparr>isLoading := True\<rparr>;
            (r1, m1) = send_secret_set send ''tink_clientId'' (clientId m) m0
        in if truthy (reply_error r1) then
             m1\<lparr>isLoading := False, isValid := False,
                error := getSecretsError (reply_error r1) (reply_reason r1)\<rparr>
           else
             let (r2, m2) = send_secret_set send ''tink_clientSecret'' (clientSecret m) m1
             in if truthy (reply_error r2) then
                  m2\<lparr>isLoading := False, isValid := False,
                     error := getSecretsError (reply_error r2) (reply_reason r2)\<rparr>
                else
                  let (r3, m3) = send_secret_set send ''tink_market'' (market m) m2
                  in if truthy (reply_error r3) then
                       m3\<lparr>isLoading := False, isValid := False,
                          error := getSecretsError (reply_error r3) (reply_reason r3)\<rparr>
                     else
                       (let m4 = m3\<lparr>isValid := True\<rparr>;
                            m5 = m4\<lparr>effects := effects m4 @ [OnSuccess]\<rparr>;
                            m6 = m5\<lparr>isLoading := False\<rparr>
                        in m6\<lparr>effects := effects m6 @ [Close]\<rparr>))"

section \<open>The normalizer's body as a JavaScript expression\<close>

text \<open>
  A HOL function cannot read a clock, draw a random number or touch a module variable,
  so the function \<open>normalizeTrueLayerTransaction\<close> above says nothing about whether the
  JavaScript does.  For that question the body of the normalizer is also kept as
  syntax, and evaluated in a runtime that has a clock, a random source and module
  variables, all of which an expression of the language can reach.
\<close>

datatype 'n js_value =
    Undefined
  | String_value string
  | Number_value 'n
  | Boolean_value bool
  | Array_value "'n js_value list"
  | Object_value "(string \<times> 'n js_value) list"

text \<open>
  What a call can observe besides its argument: the reading of \<^verbatim>\<open>Date.now()\<close>, the
  numbers \<^verbatim>\<open>Math.random()\<close> will return (with the count of those already drawn) and the
  variables of the enclosing module.
\<close>

record 'n runtime =
  clock :: 'n
  random_source :: "nat \<Rightarrow> 'n"
  random_drawn :: nat
  module_vars :: "string \<rightharpoonup> 'n js_value"

text \<open>
  The expressions: the parameter, literals, \<^verbatim>\<open>e.name\<close>, \<^verbatim>\<open>e.split(c)\<close>, \<^verbatim>\<open>e[i]\<close>,
  \<^verbatim>\<open>a || b\<close>, \<^verbatim>\<open>a !== b\<close>, \<^verbatim>\<open>c ? a : b\<close> and object literals, which the normalizer
  uses, and \<^verbatim>\<open>Date.now()\<close>, \<^verbatim>\<open>Math.random()\<close>, reading and assigning a module variable,
  which it does not.
\<close>

datatype expr =
    Param
  | String_literal string
  | Undefined_literal
  | Member expr string
  | Call_split expr char
  | Element expr nat
  | Or expr expr
  | Not_identical expr expr
  | Conditional expr expr expr
  | Object_literal "(string \<times> expr) list"
  | Date_now
  | Math_random
  | Module_var string
  | Assign_module_var string expr

text \<open>Truthiness of a value; the number type has no \<^verbatim>\<open>NaN\<close>, so only zero is falsy.\<close>

definition value_truthy :: "'n::zero js_value \<Rightarrow> bool" where
  "value_truthy v =
     (case v of
        Undefined \<Rightarrow> False
      | String_value s \<Rightarrow> s \<noteq> []
      | Number_value n \<Rightarrow> n \<noteq> 0
      | Boolean_value b \<Rightarrow> b
      | Array_value xs \<Rightarrow> True
      | Object_value ps \<Rightarrow> True)"

text \<open>
  \<^verbatim>\<open>v.name\<close>: a \<^verbatim>\<open>TypeError\<close> on \<^verbatim>\<open>undefined\<close>, the property's value on an object
  (\<^verbatim>\<open>undefined\<close> when the object has none of that name).  Only the properties that an
  object carries itself are modelled, so a primitive or an array has none.
\<close>

definition get_member :: "'n js_value \<Rightarrow> string \<Rightarrow> js_error + 'n js_value" where
  "get_member v name =
     (case v of
        Undefined \<Rightarrow>
          Inl (TypeError (''Cannot read properties of undefined (reading ''
                          @ [CHR 0x27] @ name @ [CHR 0x27] @ '')''))
      | Object_value ps \<Rightarrow> Inr (case map_of ps name of None \<Rightarrow> Undefined | Some p \<Rightarrow> p)
      | _ \<Rightarrow> Inr Undefined)"

text \<open>\<^verbatim>\<open>v.split(sep)\<close>: only a string has the method.\<close>

definition call_split :: "'n js_value \<Rightarrow> char \<Rightarrow> js_error + 'n js_value" where
  "call_split v sep =
     (case v of
        String_value s \<Rightarrow> Inr (Array_value (map String_value (js_split sep s)))
      | Undefined \<Rightarrow> Inl (TypeError ''Cannot read properties of undefined (reading 'split')'')
      | _ \<Rightarrow> Inl (TypeError ''split is not a function''))"

text \<open>\<^verbatim>\<open>v[i]\<close> on an array or a string; \<^verbatim>\<open>undefined\<close> out of range.\<close>

definition get_element :: "'n js_value \<Rightarrow> nat \<Rightarrow> js_error + 'n js_value" where
  "get_element v i =
     (case v of
        Array_value xs \<Rightarrow> Inr (case js_index xs i of None \<Rightarrow> Undefined | Some x \<Rightarrow> x)
      | String_value s \<Rightarrow>
          Inr (case js_index s i of None \<Rightarrow> Undefined | Some c \<Rightarrow> String_value [c])
      | Undefined \<Rightarrow> Inl (TypeError ''Cannot read properties of undefined'')
      | _ \<Rightarrow> Inr Undefined)"

text \<open>
  Evaluation, left to right, with the runtime passed along and the first exception
  ending it.  \<^verbatim>\<open>a !== b\<close> compares the two values; for two objects JavaScript compares
  their identity instead, which the values here do not carry.
\<close>

fun eval ::
    "'n::zero runtime \<Rightarrow> 'n js_value \<Rightarrow> expr \<Rightarrow> (js_error + 'n js_value) \<times> 'n runtime"
  and eval_properties ::
    "'n runtime \<Rightarrow> 'n js_value \<Rightarrow> (string \<times> expr) list
       \<Rightarrow> (js_error + (string \<times> 'n js_value) list) \<times> 'n runtime" where
  "eval rt arg Param = (Inr arg, rt)"
| "eval rt arg (String_literal s) = (Inr (String_value s), rt)"
| "eval rt arg Undefined_literal = (Inr Undefined, rt)"
| "eval rt arg (Member e name) =
     (case eval rt arg e of
        (Inl err, rt1) \<Rightarrow> (Inl err, rt1)
      | (Inr v, rt1) \<Rightarrow> (get_member v name, rt1))"
| "eval rt arg (Call_split e sep) =
     (case eval rt arg e of
        (Inl err, rt1) \<Rightarrow> (Inl err, rt1)
      | (Inr v, rt1) \<Rightarrow> (call_split v sep, rt1))"
| "eval rt arg (Element e i) =
     (case eval rt arg e of
        (Inl err, rt1) \<Rightarrow> (Inl err, rt1)
      | (Inr v, rt1) \<Rightarrow> (get_element v i, rt1))"
| "eval rt arg (Or a b) =
     (case eval rt arg a of
        (Inl err, rt1) \<Rightarrow> (Inl err, rt1)
      | (Inr v, rt1) \<Rightarrow> if value_truthy v then (Inr v, rt1) else eval rt1 arg b)"
| "eval rt arg (Not_identical a b) =
     (case eval rt arg a of
        (Inl err, rt1) \<Rightarrow> (Inl err, rt1)
      | (Inr v, rt1) \<Rightarrow>
          (case eval rt1 arg b of
             (Inl err, rt2) \<Rightarrow> (Inl err, rt2)
           | (Inr u, rt2) \<Rightarrow> (Inr (Boolean_value (v \<noteq> u)), rt2)))"
| "eval rt arg (Conditional c a b) =
     (case eval rt arg c of
        (Inl err, rt1) \<Rightarrow> (Inl err, rt1)
      | (Inr v, rt1) \<Rightarrow> if value_truthy v then eval rt1 arg a else eval rt1 arg b)"
| "eval rt arg (Object_literal props) =
     (case eval_properties rt arg props of
        (Inl err, rt1) \<Rightarrow> (Inl err, rt1)
      | (Inr ps, rt1) \<Rightarrow> (Inr (Object_value ps), rt1))"
| "eval rt arg Date_now = (Inr (Number_value (clock rt)), rt)"
| "eval rt arg Math_random =
     (Inr (Number_value (random_source rt (random_drawn rt))),
      rt\<lparr>random_drawn := Suc (random_drawn rt)\<rparr>)"
| "eval rt arg (Module_var name) =
     (Inr (case module_vars rt name of None \<Rightarrow> Undefined | Some v \<Rightarrow> v), rt)"
| "eval rt arg (Assign_module_var name e) =
     (case eval rt arg e of
        (Inl err, rt1) \<Rightarrow> (Inl err, rt1)
      | (Inr v, rt1) \<Rightarrow> (Inr v, rt1\<lparr>module_vars := (module_vars rt1)(name \<mapsto> v)\<rparr>))"
| "eval_properties rt arg [] = (Inr [], rt)"
| "eval_properties rt arg ((key, e) # props) =
     (case eval rt arg e of
        (Inl err, rt1) \<Rightarrow> (Inl err, rt1)
      | (Inr v, rt1) \<Rightarrow>
          (case eval_properties rt1 arg props of
             (Inl err, rt2) \<Rightarrow> (Inl err, rt2)
           | (Inr ps, rt2) \<Rightarrow> (Inr ((key, v) # ps), rt2)))"

text \<open>The object literal that \<^verbatim>\<open>normalizeTrueLayerTransaction\<close> returns, property by property.\<close>

definition normalizeTrueLayerTransaction_body :: expr where
  "normalizeTrueLayerTransaction_body =
     Object_literal
       [(''transactionId'', Member Param ''transaction_id''),
        (''date'', Element (Call_split (Member Param ''timestamp'') CHR ''T'') 0),
        (''payeeName'', Or (Member Param ''merchant_name'') (Member Param ''description'')),
        (''notes'', Member Param ''description''),
        (''booked'',
           Not_identical (Member Param ''transaction_type'') (String_literal ''PENDING'')),
        (''transactionAmount'',
           Object_literal
             [(''amount'', Member Param ''amount''),
              (''currency'', Member Param ''currency'')]),
        (''balanceAfterTransaction'',
           Conditional (Member Param ''running_balance'')
             (Object_literal
                [(''amount'', Member (Member Param ''running_balance'') ''amount''),
                 (''currency'', Member (Member Param ''running_balance'') ''currency'')])
             Undefined_literal)]"

text \<open>The records of the normalizer as JavaScript objects; a missing property is \<^verbatim>\<open>undefined\<close>.\<close>

definition optional_string :: "string option \<Rightarrow> 'n js_value" where
  "optional_string s = (case s of None \<Rightarrow> Undefined | Some t \<Rightarrow> String_value t)"

definition money_value :: "'n money \<Rightarrow> 'n js_value" where
  "money_value b =
     Object_value [(''amount'', Number_value (money.amount b)),
                   (''currency'', String_value (money.currency b))]"

definition tl_transaction_value :: "'n tl_transaction \<Rightarrow> 'n js_value" where
  "tl_transaction_value tx =
     Object_value
       [(''transaction_id'', String_value (transaction_id tx)),
        (''timestamp'', optional_string (timestamp tx)),
        (''description'', optional_string (description tx)),
        (''amount'', Number_value (tl_transaction.amount tx)),
        (''currency'', String_value (tl_transaction.currency tx)),
        (''transaction_type'', optional_string (transaction_type tx)),
        (''transaction_category'', optional_string (transaction_category tx)),
        (''merchant_name'', optional_string (merchant_name tx)),
        (''running_balance'',
           (case running_balance tx of None \<Rightarrow> Undefined | Some b \<Rightarrow> money_value b))]"

definition bank_sync_transaction_value :: "'n bank_sync_transaction \<Rightarrow> 'n js_value" where
  "bank_sync_transaction_value out =
     Object_value
       [(''transactionId'', String_value (transactionId out)),
        (''date'', optional_string (date out)),
        (''payeeName'', optional_string (payeeName out)),
        (''notes'', optional_string (notes out)),
        (''booked'', Boolean_value (booked out)),
        (''transactionAmount'', money_value (transactionAmount out)),
        (''balanceAfterTransaction'',
           (case balanceAfterTransaction out of
              None \<Rightarrow> Undefined
            | Some b \<Rightarrow> money_value b))]"

text \<open>One call \<^verbatim>\<open>normalizeTrueLayerTransaction(tx)\<close> in a runtime.\<close>

definition call_normalizer ::
  "'n::zero runtime \<Rightarrow> 'n tl_transaction \<Rightarrow> (js_error + 'n js_value) \<times> 'n runtime" where
  "call_normalizer rt tx =
     eval rt (tl_transaction_value tx) normalizeTrueLayerTransaction_body"

section \<open>Reading responses and replies\<close>

text \<open>
  The string under \<^verbatim>\<open>data.error\<close> of a response body, if the body has one.
\<close>

definition response_error :: "json \<Rightarrow> string option" where
  "response_error r =
     (case r of
        JObject props \<Rightarrow>
          (case map_of props ''data'' of
             Some (JObject entries) \<Rightarrow>
               (case map_of entries ''error'' of Some (JString m) \<Rightarrow> Some m | _ \<Rightarrow> None)
           | _ \<Rightarrow> None)
      | _ \<Rightarrow> None)"

text \<open>A reply to \<^verbatim>\<open>secret-set\<close> reports an error when its \<^verbatim>\<open>error\<close> property is truthy.\<close>

definition reports_error :: "secret_reply option \<Rightarrow> bool" where
  "reports_error reply = (case reply of None \<Rightarrow> False | Some r \<Rightarrow> truthy (reply_error r))"

section \<open>Example inputs\<close>

definition fresh_world :: world where
  "fresh_world = \<lparr>secrets = Map.empty, tinkClient = None, console = []\<rparr>"

definition configured_world :: world where
  "configured_world =
     \<lparr>secrets = [tink_clientId \<mapsto> ''id-1'', tink_clientSecret \<mapsto> ''s3cret''],
      tinkClient = None, console = []\<rparr>"

definition reject_body :: "js_error \<Rightarrow> json" where
  "reject_body err =
     JObject [(''status'', JString ''ok''),
              (''data'', JObject [(''error_code'', JString ''INTERNAL_ERROR''),
                                  (''error_type'', JString (message err))])]"

definition empty_request :: request where
  "empty_request = \<lparr>body = None\<rparr>"

definition acme_tx :: "real tl_transaction" where
  "acme_tx =
     \<lparr>transaction_id = ''a6f4e8'',
      timestamp = Some ''2024-01-15T10:30:00Z'',
      description = Some ''ACME CORP LONDON'',
      amount = - 42.5,
      currency = ''GBP'',
      transaction_type = Some ''DEBIT'',
      transaction_category = Some ''PURCHASE'',
      merchant_name = Some ''ACME Corp'',
      running_balance = Some \<lparr>money.amount = 1234.56, money.currency = ''GBP''\<rparr>\<rparr>"

definition pending_tx :: "real tl_transaction" where
  "pending_tx =
     \<lparr>transaction_id = ''b7'',
      timestamp = Some ''2024-02-29T23:59:59Z'',
      description = Some '''',
      amount = 10,
      currency = ''EUR'',
      transaction_type = Some ''PENDING'',
      transaction_category = None,
      merchant_name = None,
      running_balance = None\<rparr>"

text \<open>A secrets backend that stores every secret except the one named \<open>bad\<close>.\<close>

definition failing_send ::
  "string \<Rightarrow> (string \<rightharpoonup> string) \<Rightarrow> string \<Rightarrow> string
     \<Rightarrow> secret_reply option \<times> (string \<rightharpoonup> string)" where
  "failing_send bad store name val =
     (if name = bad then (Some (Reply (Some ''unauthorized'') (Some ''token-expired'')), store)
      else (None, store(name \<mapsto> val)))"

definition filled_modal :: "(string \<rightharpoonup> string) modal" where
  "filled_modal =
     \<lparr>clientId = ''id-1'', clientSecret = ''s3cret'', market = ''GB'',
      isValid = True, isLoading = False, error = '''',
      backend = Map.empty, effects = []\<rparr>"

definition secrets_error_text :: "string option \<Rightarrow> string option \<Rightarrow> string" where
  "secrets_error_text err reason = (case err of None \<Rightarrow> '''' | Some e \<Rightarrow> e)"

text \<open>Two runtimes that differ in clock, random source and module variables.\<close>

definition early_runtime :: "real runtime" where
  "early_runtime =
     \<lparr>clock = 1705314600000, random_source = (\<lambda>n. 0), random_drawn = 0,
      module_vars = Map.empty\<rparr>"

definition late_runtime :: "real runtime" where
  "late_runtime =
     \<lparr>clock = 1893456000000, random_source = (\<lambda>n. 1 / 2), random_drawn = 7,
      module_vars = [''tinkClient'' \<mapsto> Object_value []]\<rparr>"

section \<open>Properties of the service and the status route\<close>

lemma secret_names_distinct:
  "tink_clientId \<noteq> tink_clientSecret"
  "tink_market \<noteq> tink_clientId"
  "tink_market \<noteq> tink_clientSecret"
  by (simp_all add: tink_clientId_def tink_clientSecret_def tink_market_def)

lemma isConfigured_iff:
  "isConfigured w \<longleftrightarrow>
     (\<exists>a b. secrets w tink_clientId = Some a \<and> a \<noteq> [] \<and>
            secrets w tink_clientSecret = Some b \<and> b \<noteq> [])"
  by (auto simp: isConfigured_def secrets_get_def js_and_def truthy_def Let_def
      split: option.splits)

lemma post_status_eq:
  "post_status on_reject req w =
     (JObject [(''status'', JString ''ok''),
               (''data'', JObject [(''configured'', JBool (isConfigured w))])], w)"
  by (simp add: post_status_def handleError_def status_handler_def Let_def)

text \<open>
  C1.  For every request, credential store and rejection policy of the wrapper,
  \<^verbatim>\<open>POST /status\<close> sends \<^verbatim>\<open>{status: 'ok', data: {configured}}\<close> with a boolean
  \<^verbatim>\<open>configured\<close> that is true exactly when \<^verbatim>\<open>tink_clientId\<close> and \<^verbatim>\<open>tink_clientSecret\<close> are
  both stored with non-empty values; setting, changing or removing any other secret
  (such as \<^verbatim>\<open>tink_market\<close>) leaves the response as it is.
\<close>

theorem status_configured:
  "\<exists>configured.
     fst (post_status on_reject req w) =
       JObject [(''status'', JString ''ok''),
                (''data'', JObject [(''configured'', JBool configured)])] \<and>
     (configured \<longleftrightarrow>
        (\<exists>a b. secrets w tink_clientId = Some a \<and> a \<noteq> [] \<and>
               secrets w tink_clientSecret = Some b \<and> b \<noteq> [])) \<and>
     (\<forall>name v. name \<noteq> tink_clientId \<and> name \<noteq> tink_clientSecret \<longrightarrow>
        fst (post_status on_reject req (w\<lparr>secrets := (secrets w)(name := v)\<rparr>)) =
        fst (post_status on_reject req w))"
  by (auto simp: post_status_eq isConfigured_iff)

theorem status_configured_witness:
  "tink_market \<noteq> tink_clientId \<and> tink_market \<noteq> tink_clientSecret \<and>
   fst (post_status reject_body empty_request
          (configured_world\<lparr>secrets := (secrets configured_world)(tink_market := Some ''GB'')\<rparr>)) =
   JObject [(''status'', JString ''ok''), (''data'', JObject [(''configured'', JBool True)])]"
proof -
  have names: "tink_market \<noteq> tink_clientId \<and> tink_market \<noteq> tink_clientSecret"
    by (simp add: secret_names_distinct)
  have present: "\<exists>a b. secrets configured_world tink_clientId = Some a \<and> a \<noteq> [] \<and>
                       secrets configured_world tink_clientSecret = Some b \<and> b \<noteq> []"
    by (simp add: configured_world_def secret_names_distinct)
  from status_configured [of reject_body empty_request configured_world]
  obtain configured where
    sent: "fst (post_status reject_body empty_request configured_world) =
             JObject [(''status'', JString ''ok''),
                      (''data'', JObject [(''configured'', JBool configured)])]"
    and flag: "configured \<longleftrightarrow>
                 (\<exists>a b. secrets configured_world tink_clientId = Some a \<and> a \<noteq> [] \<and>
                        secrets configured_world tink_clientSecret = Some b \<and> b \<noteq> [])"
    and other: "\<forall>name v. name \<noteq> tink_clientId \<and> name \<noteq> tink_clientSecret \<longrightarrow>
                  fst (post_status reject_body empty_request
                         (configured_world\<lparr>secrets := (secrets configured_world)(name := v)\<rparr>)) =
                  fst (post_status reject_body empty_request configured_world)"
    by blast
  from flag present have "configured" by simp
  with sent other names show ?thesis by simp
qed

text \<open>
  C3.  Whatever the state and the arguments, \<^verbatim>\<open>getAccounts\<close> and \<^verbatim>\<open>getTransactions\<close>
  reject with an \<^verbatim>\<open>Error\<close> whose message says the feature is not yet implemented; the
  result is never a resolved value.
\<close>

theorem service_not_implemented:
  "fst (getAccounts w) = Inl (Error ''Tink account fetching not yet implemented'') \<and>
   fst (getTransactions acc start w) =
     Inl (Error ''Tink transaction fetching not yet implemented'')"
  by (simp add: getAccounts_def getAccounts_try_def getTransactions_def
      getTransactions_try_def split: prod.splits)

section \<open>Properties of the route handlers\<close>

lemma getAccounts_eq:
  "getAccounts w =
     (Inl (Error ''Tink account fetching not yet implemented''),
      console_error ''Error fetching Tink accounts: Tink account fetching not yet implemented''
        (snd (getTinkClient w)))"
  by (simp add: getAccounts_def getAccounts_try_def split: prod.splits)

lemma getTransactions_eq:
  "getTransactions acc start w =
     (Inl (Error ''Tink transaction fetching not yet implemented''),
      console_error
        ''Error fetching Tink transactions: Tink transaction fetching not yet implemented''
        (snd (getTinkClient w)))"
  by (simp add: getTransactions_def getTransactions_try_def split: prod.splits)

lemma post_accounts_eq:
  "post_accounts on_reject req w =
     (JObject [(''status'', JString ''ok''),
               (''data'', JObject [(''error'',
                   JString ''Tink account fetching not yet implemented'')])],
      snd (getAccounts w))"
  by (simp add: post_accounts_def handleError_def accounts_handler_def getAccounts_eq)

lemma post_transactions_eq:
  "post_transactions on_reject req w =
     (JObject [(''status'', JString ''ok''),
               (''data'', JObject [(''error'',
                   JString ''Tink transaction fetching not yet implemented'')])],
      snd (getTransactions None None w))"
  by (simp add: post_transactions_def handleError_def transactions_handler_def
      getTransactions_eq Let_def)

text \<open>
  C2, as stated, fails for \<^verbatim>\<open>POST /status\<close>: on a store with no secrets the route answers
  \<^verbatim>\<open>{status: 'ok', data: {configured: false}}\<close>, a body without any \<^verbatim>\<open>error\<close>, and leaves
  the state as it was.
\<close>

theorem status_is_not_a_stub:
  "post_status reject_body empty_request fresh_world =
     (JObject [(''status'', JString ''ok''),
               (''data'', JObject [(''configured'', JBool False)])],
      fresh_world) \<and>
   response_error (fst (post_status reject_body empty_request fresh_world)) = None"
  by (simp add: post_status_eq isConfigured_iff fresh_world_def response_error_def)

text \<open>
  C2, amended.  For every request and state, \<^verbatim>\<open>POST /accounts\<close> and
  \<^verbatim>\<open>POST /transactions\<close> answer with a "not yet implemented" error instead of performing
  their operation, while \<^verbatim>\<open>POST /status\<close> answers without an error.
\<close>

theorem data_routes_not_implemented:
  "response_error (fst (post_accounts on_reject req w)) =
     Some ''Tink account fetching not yet implemented'' \<and>
   response_error (fst (post_transactions on_reject req w)) =
     Some ''Tink transaction fetching not yet implemented'' \<and>
   response_error (fst (post_status on_reject req w)) = None"
  by (simp add: post_accounts_eq post_transactions_eq post_status_eq response_error_def)

text \<open>
  C4.  When the service call rejects with an exception \<open>e\<close>, \<^verbatim>\<open>POST /accounts\<close> and
  \<^verbatim>\<open>POST /transactions\<close> send exactly \<^verbatim>\<open>{status: 'ok', data: {error: e.message}}\<close>: the
  message as a string and nothing else of the exception.  For \<^verbatim>\<open>POST /transactions\<close> the
  service call does reject, and this response is sent, for every body
  \<^verbatim>\<open>{accountId, startDate}\<close>.
\<close>

theorem handlers_send_error_message:
  "(\<forall>e w1. getAccounts w = (Inl e, w1) \<longrightarrow>
      post_accounts on_reject req w =
        (JObject [(''status'', JString ''ok''),
                  (''data'', JObject [(''error'', JString (message e))])], w1)) \<and>
   (\<forall>e w1. getTransactions acc start w = (Inl e, w1) \<longrightarrow>
      post_transactions on_reject \<lparr>body = Some \<lparr>accountId = acc, startDate = start\<rparr>\<rparr> w =
        (JObject [(''status'', JString ''ok''),
                  (''data'', JObject [(''error'', JString (message e))])], w1)) \<and>
   (\<exists>e w1. getTransactions acc start w = (Inl e, w1) \<and>
      post_transactions on_reject \<lparr>body = Some \<lparr>accountId = acc, startDate = start\<rparr>\<rparr> w =
        (JObject [(''status'', JString ''ok''),
                  (''data'', JObject [(''error'', JString (message e))])], w1))"
  by (simp add: post_accounts_def post_transactions_def handleError_def accounts_handler_def
      transactions_handler_def getAccounts_eq getTransactions_eq)

theorem handlers_send_error_message_witness:
  "getAccounts fresh_world =
     (Inl (Error ''Tink account fetching not yet implemented''),
      \<lparr>secrets = Map.empty, tinkClient = Some (TinkClient None None),
       console = [''Error fetching Tink accounts: Tink account fetching not yet implemented'']\<rparr>) \<and>
   post_accounts reject_body empty_request fresh_world =
     (JObject [(''status'', JString ''ok''),
               (''data'', JObject [(''error'',
                   JString ''Tink account fetching not yet implemented'')])],
      \<lparr>secrets = Map.empty, tinkClient = Some (TinkClient None None),
       console = [''Error fetching Tink accounts: Tink account fetching not yet implemented'']\<rparr>)"
proof -
  have fails: "getAccounts fresh_world =
     (Inl (Error ''Tink account fetching not yet implemented''),
      \<lparr>secrets = Map.empty, tinkClient = Some (TinkClient None None),
       console = [''Error fetching Tink accounts: Tink account fetching not yet implemented'']\<rparr>)"
    by (simp add: getAccounts_eq getTinkClient_def fresh_world_def console_error_def
        secrets_get_def Let_def)
  from handlers_send_error_message [of fresh_world reject_body empty_request] fails
  show ?thesis by simp
qed

section \<open>Properties of the normalizer\<close>

lemma js_split_first: "\<exists>ps. js_split sep s = takeWhile (\<lambda>c. c \<noteq> sep) s # ps"
  by (induction s) auto

lemma js_index_split_0: "js_index (js_split sep s) 0 = Some (takeWhile (\<lambda>c. c \<noteq> sep) s)"
  using js_split_first [of sep s] by (auto simp: js_index_def)

lemma normalize_Some:
  "timestamp x = Some ts \<Longrightarrow>
   normalizeTrueLayerTransaction x =
     Inr \<lparr>transactionId = transaction_id x,
          date = Some (takeWhile (\<lambda>c. c \<noteq> CHR ''T'') ts),
          payeeName = js_or (merchant_name x) (description x),
          notes = description x,
          booked = (transaction_type x \<noteq> Some ''PENDING''),
          transactionAmount =
            \<lparr>money.amount = tl_transaction.amount x,
             money.currency = tl_transaction.currency x\<rparr>,
          balanceAfterTransaction = running_balance x\<rparr>"
  by (simp add: normalizeTrueLayerTransaction_def js_index_split_0 split: option.splits)

text \<open>
  C5.  A transaction that has a timestamp is normalized, and the output's \<^verbatim>\<open>booked\<close> is
  false when the status (\<^verbatim>\<open>transaction_type\<close>) is \<^verbatim>\<open>'PENDING'\<close> and true for every other
  status.
\<close>

theorem booked_iff_not_pending:
  assumes "timestamp x = Some ts"
  shows "\<exists>out. normalizeTrueLayerTransaction x = Inr out \<and>
               (booked out \<longleftrightarrow> transaction_type x \<noteq> Some ''PENDING'')"
  using assms by (simp add: normalize_Some)

theorem booked_iff_not_pending_witness:
  "timestamp pending_tx = Some ''2024-02-29T23:59:59Z'' \<and>
   transaction_type pending_tx = Some ''PENDING'' \<and>
   (\<exists>out. normalizeTrueLayerTransaction pending_tx = Inr out \<and> \<not> booked out)"
proof -
  have ts: "timestamp pending_tx = Some ''2024-02-29T23:59:59Z''"
    by (simp add: pending_tx_def)
  have ty: "transaction_type pending_tx = Some ''PENDING''"
    by (simp add: pending_tx_def)
  from booked_iff_not_pending [OF ts] ty ts show ?thesis by auto
qed

text \<open>
  C6.  The output date is the part of the timestamp before its first \<^verbatim>\<open>T\<close>: for a
  timestamp made of a date part \<open>d\<close> without \<^verbatim>\<open>T\<close>, then \<^verbatim>\<open>T\<close>, then the time, the date
  is \<open>d\<close> itself.  The normalizer takes the transaction alone, so no time zone of the
  process enters the result.
\<close>

theorem date_is_prefix_before_T:
  assumes "timestamp x = Some ts"
  shows "\<exists>out. normalizeTrueLayerTransaction x = Inr out \<and>
               date out = Some (takeWhile (\<lambda>c. c \<noteq> CHR ''T'') ts) \<and>
               (\<forall>d rest. ts = d @ CHR ''T'' # rest \<and> CHR ''T'' \<notin> set d \<longrightarrow>
                  date out = Some d)"
  using assms by (auto simp: normalize_Some takeWhile_tail)

theorem date_is_prefix_before_T_witness:
  "timestamp acme_tx = Some (''2024-01-15'' @ CHR ''T'' # ''10:30:00Z'') \<and>
   CHR ''T'' \<notin> set ''2024-01-15'' \<and>
   (\<exists>out. normalizeTrueLayerTransaction acme_tx = Inr out \<and> date out = Some ''2024-01-15'')"
proof -
  have ts: "timestamp acme_tx = Some (''2024-01-15'' @ CHR ''T'' # ''10:30:00Z'')"
    by (simp add: acme_tx_def)
  have noT: "CHR ''T'' \<notin> set ''2024-01-15''"
    by simp
  from date_is_prefix_before_T [OF ts] ts noT show ?thesis by blast
qed

text \<open>
  C7, as stated, fails: a transaction without a merchant name and with an empty
  description is normalized to the empty payee name, not to \<^verbatim>\<open>"Unknown"\<close>.
\<close>

theorem payee_unknown_counterexample:
  "merchant_name pending_tx = None \<and> description pending_tx = Some '''' \<and>
   normalizeTrueLayerTransaction pending_tx =
     Inr \<lparr>transactionId = ''b7'', date = Some ''2024-02-29'', payeeName = Some '''',
          notes = Some '''', booked = False,
          transactionAmount = \<lparr>money.amount = 10, money.currency = ''EUR''\<rparr>,
          balanceAfterTransaction = None\<rparr> \<and>
   Some '''' \<noteq> Some ''Unknown''"
proof -
  have ts: "timestamp pending_tx = Some ''2024-02-29T23:59:59Z''"
    by (simp add: pending_tx_def)
  show ?thesis
    unfolding normalize_Some [OF ts]
    by (simp add: pending_tx_def js_or_def truthy_def)
qed

text \<open>
  C7, amended.  The payee name is the merchant name when that is present and non-empty;
  otherwise it is the raw description as it is, present or not, empty or not.
\<close>

theorem payee_merchant_else_description:
  assumes "timestamp x = Some ts"
  shows "\<exists>out. normalizeTrueLayerTransaction x = Inr out \<and>
               (\<forall>m. merchant_name x = Some m \<and> m \<noteq> [] \<longrightarrow> payeeName out = Some m) \<and>
               (merchant_name x = None \<or> merchant_name x = Some [] \<longrightarrow>
                  payeeName out = description x)"
  unfolding normalize_Some [OF assms]
  by (auto simp: js_or_def truthy_def)

theorem payee_merchant_else_description_witness:
  "timestamp acme_tx = Some ''2024-01-15T10:30:00Z'' \<and>
   merchant_name acme_tx = Some ''ACME Corp'' \<and> ''ACME Corp'' \<noteq> [] \<and>
   (\<exists>out. normalizeTrueLayerTransaction acme_tx = Inr out \<and>
          payeeName out = Some ''ACME Corp'')"
proof -
  have ts: "timestamp acme_tx = Some ''2024-01-15T10:30:00Z''"
    by (simp add: acme_tx_def)
  have mn: "merchant_name acme_tx = Some ''ACME Corp'' \<and> ''ACME Corp'' \<noteq> []"
    by (simp add: acme_tx_def)
  from payee_merchant_else_description [OF ts] ts mn show ?thesis by blast
qed

text \<open>
  C8.  Without a \<^verbatim>\<open>running_balance\<close> the output's \<^verbatim>\<open>balanceAfterTransaction\<close> is
  \<^verbatim>\<open>undefined\<close> (\<open>None\<close>), not a balance of zero; with one, it carries that balance's
  amount and currency.
\<close>

theorem balance_absent_or_copied:
  assumes "timestamp x = Some ts"
  shows "\<exists>out. normalizeTrueLayerTransaction x = Inr out \<and>
               (running_balance x = None \<longrightarrow> balanceAfterTransaction out = None) \<and>
               (\<forall>rb. running_balance x = Some rb \<longrightarrow>
                  balanceAfterTransaction out =
                    Some \<lparr>money.amount = money.amount rb,
                          money.currency = money.currency rb\<rparr>)"
  unfolding normalize_Some [OF assms] by simp

theorem balance_absent_or_copied_witness:
  "timestamp pending_tx = Some ''2024-02-29T23:59:59Z'' \<and> running_balance pending_tx = None \<and>
   timestamp acme_tx = Some ''2024-01-15T10:30:00Z'' \<and>
   running_balance acme_tx = Some \<lparr>money.amount = 1234.56, money.currency = ''GBP''\<rparr> \<and>
   (\<exists>out. normalizeTrueLayerTransaction pending_tx = Inr out \<and>
          balanceAfterTransaction out = None) \<and>
   (\<exists>out. normalizeTrueLayerTransaction acme_tx = Inr out \<and>
          balanceAfterTransaction out =
            Some \<lparr>money.amount = 1234.56, money.currency = ''GBP''\<rparr>)"
proof -
  have ts1: "timestamp pending_tx = Some ''2024-02-29T23:59:59Z''"
    and rb1: "running_balance pending_tx = None"
    by (simp_all add: pending_tx_def)
  have ts2: "timestamp acme_tx = Some ''2024-01-15T10:30:00Z''"
    and rb2: "running_balance acme_tx =
                Some \<lparr>money.amount = 1234.56, money.currency = ''GBP''\<rparr>"
    by (simp_all add: acme_tx_def)
  from balance_absent_or_copied [OF ts1] rb1
  have a: "\<exists>out. normalizeTrueLayerTransaction pending_tx = Inr out \<and>
            balanceAfterTransaction out = None"
    by blast
  from balance_absent_or_copied [OF ts2]
  obtain out where o1: "normalizeTrueLayerTransaction acme_tx = Inr out"
    and o2: "\<forall>rb. running_balance acme_tx = Some rb \<longrightarrow>
                  balanceAfterTransaction out =
                    Some \<lparr>money.amount = money.amount rb,
                          money.currency = money.currency rb\<rparr>"
    by blast
  from o2 rb2 have "balanceAfterTransaction out =
      Some \<lparr>money.amount = 1234.56, money.currency = ''GBP''\<rparr>"
    by simp
  with o1 have b: "\<exists>out. normalizeTrueLayerTransaction acme_tx = Inr out \<and>
            balanceAfterTransaction out =
              Some \<lparr>money.amount = 1234.56, money.currency = ''GBP''\<rparr>"
    by blast
  from ts1 rb1 ts2 rb2 a b show ?thesis by blast
qed

lemma member_of_tx:
  "get_member (tl_transaction_value tx) ''transaction_id'' =
     Inr (String_value (transaction_id tx))"
  "get_member (tl_transaction_value tx) ''timestamp'' = Inr (optional_string (timestamp tx))"
  "get_member (tl_transaction_value tx) ''description'' =
     Inr (optional_string (description tx))"
  "get_member (tl_transaction_value tx) ''amount'' =
     Inr (Number_value (tl_transaction.amount tx))"
  "get_member (tl_transaction_value tx) ''currency'' =
     Inr (String_value (tl_transaction.currency tx))"
  "get_member (tl_transaction_value tx) ''transaction_type'' =
     Inr (optional_string (transaction_type tx))"
  "get_member (tl_transaction_value tx) ''merchant_name'' =
     Inr (optional_string (merchant_name tx))"
  "get_member (tl_transaction_value tx) ''running_balance'' =
     Inr (case running_balance tx of None \<Rightarrow> Undefined | Some b \<Rightarrow> money_value b)"
  by (simp_all add: get_member_def tl_transaction_value_def)

lemma member_of_money:
  "get_member (money_value b) ''amount'' = Inr (Number_value (money.amount b))"
  "get_member (money_value b) ''currency'' = Inr (String_value (money.currency b))"
  by (simp_all add: get_member_def money_value_def)

lemma split_element_0:
  "get_element (Array_value (map String_value (js_split sep s))) 0 =
     Inr (String_value (takeWhile (\<lambda>c. c \<noteq> sep) s))"
  using js_split_first [of sep s] by (auto simp: get_element_def js_index_def)

lemma eval_member_param:
  "eval rt v (Member Param name) = (get_member v name, rt)"
  by simp

lemma eval_date:
  assumes "timestamp tx = Some ts"
  shows "eval rt (tl_transaction_value tx)
           (Element (Call_split (Member Param ''timestamp'') CHR ''T'') 0) =
         (Inr (String_value (takeWhile (\<lambda>c. c \<noteq> CHR ''T'') ts)), rt)"
  using assms
  by (simp add: member_of_tx optional_string_def call_split_def split_element_0)

lemma eval_payeeName:
  "eval rt (tl_transaction_value tx)
     (Or (Member Param ''merchant_name'') (Member Param ''description'')) =
   (Inr (optional_string (js_or (merchant_name tx) (description tx))), rt)"
  by (cases "merchant_name tx")
     (simp_all add: member_of_tx optional_string_def value_truthy_def js_or_def truthy_def)

lemma eval_booked:
  "eval rt (tl_transaction_value tx)
     (Not_identical (Member Param ''transaction_type'') (String_literal ''PENDING'')) =
   (Inr (Boolean_value (transaction_type tx \<noteq> Some ''PENDING'')), rt)"
  by (cases "transaction_type tx") (simp_all add: member_of_tx optional_string_def)

lemma eval_amount:
  "eval rt (tl_transaction_value tx)
     (Object_literal [(''amount'', Member Param ''amount''),
                      (''currency'', Member Param ''currency'')]) =
   (Inr (money_value \<lparr>money.amount = tl_transaction.amount tx,
                       money.currency = tl_transaction.currency tx\<rparr>), rt)"
  by (simp add: member_of_tx money_value_def)

lemma eval_balance:
  "eval rt (tl_transaction_value tx)
     (Conditional (Member Param ''running_balance'')
        (Object_literal
           [(''amount'', Member (Member Param ''running_balance'') ''amount''),
            (''currency'', Member (Member Param ''running_balance'') ''currency'')])
        Undefined_literal) =
   (Inr (case running_balance tx of None \<Rightarrow> Undefined | Some b \<Rightarrow> money_value b), rt)"
proof (cases "running_balance tx")
  case None
  then show ?thesis by (simp add: member_of_tx value_truthy_def)
next
  case (Some b)
  have "value_truthy (money_value b)"
    by (simp add: value_truthy_def money_value_def)
  with Some show ?thesis
    by (simp add: member_of_tx member_of_money) (simp add: money_value_def)
qed

lemma call_normalizer_None:
  assumes "timestamp tx = None"
  shows "call_normalizer rt tx =
           (Inl (TypeError ''Cannot read properties of undefined (reading 'split')''), rt)"
  using assms
  by (simp add: call_normalizer_def normalizeTrueLayerTransaction_body_def member_of_tx
      optional_string_def call_split_def)

lemma call_normalizer_Some:
  assumes "timestamp tx = Some ts"
  shows "call_normalizer rt tx =
           (Inr (bank_sync_transaction_value
                   \<lparr>transactionId = transaction_id tx,
                    date = Some (takeWhile (\<lambda>c. c \<noteq> CHR ''T'') ts),
                    payeeName = js_or (merchant_name tx) (description tx),
                    notes = description tx,
                    booked = (transaction_type tx \<noteq> Some ''PENDING''),
                    transactionAmount =
                      \<lparr>money.amount = tl_transaction.amount tx,
                       money.currency = tl_transaction.currency tx\<rparr>,
                    balanceAfterTransaction = running_balance tx\<rparr>), rt)"
  unfolding call_normalizer_def normalizeTrueLayerTransaction_body_def
    eval.simps(10) eval_properties.simps
    eval_date [OF assms] eval_payeeName eval_booked eval_amount eval_balance
    eval_member_param member_of_tx
  by (simp add: bank_sync_transaction_value_def optional_string_def money_value_def)

text \<open>
  The runtime is not idle in this semantics: an expression that reads the clock gives
  different values under different clocks, and one that draws a random number changes
  the runtime.
\<close>

lemma eval_can_depend_on_runtime:
  "clock rt \<noteq> clock rt' \<Longrightarrow> fst (eval rt v Date_now) \<noteq> fst (eval rt' v Date_now)"
  "snd (eval rt v Math_random) \<noteq> rt"
proof -
  show "clock rt \<noteq> clock rt' \<Longrightarrow> fst (eval rt v Date_now) \<noteq> fst (eval rt' v Date_now)"
    by simp
  show "snd (eval rt v Math_random) \<noteq> rt"
  proof
    assume "snd (eval rt v Math_random) = rt"
    then have "random_drawn (snd (eval rt v Math_random)) = random_drawn rt"
      by (rule arg_cong)
    then show False by simp
  qed
qed

text \<open>
  C9.  Evaluating the normalizer's body on a transaction, in any runtime, gives the
  value of the function \<open>normalizeTrueLayerTransaction\<close> on that transaction (its output
  object, or the \<^verbatim>\<open>TypeError\<close> for a missing timestamp) and leaves the runtime as it
  was.  So the result is the same whatever the clock, the random source and the module
  variables are, and a second call right after the first gives the identical result.
\<close>

theorem normalize_deterministic:
  "call_normalizer rt x =
     (map_sum id bank_sync_transaction_value (normalizeTrueLayerTransaction x), rt) \<and>
   (\<forall>rt'. fst (call_normalizer rt' x) = fst (call_normalizer rt x)) \<and>
   (case call_normalizer rt x of
      (first, rt1) \<Rightarrow>
        (case call_normalizer rt1 x of
           (second, rt2) \<Rightarrow> second = first \<and> rt2 = rt))"
proof -
  have agree: "call_normalizer r x =
      (map_sum id bank_sync_transaction_value (normalizeTrueLayerTransaction x), r)" for r
  proof (cases "timestamp x")
    case None
    then show ?thesis
      by (simp add: call_normalizer_None normalizeTrueLayerTransaction_def)
  next
    case (Some ts)
    then show ?thesis
      by (simp add: call_normalizer_Some normalize_Some)
  qed
  then show ?thesis by simp
qed

theorem normalize_deterministic_witness:
  "call_normalizer early_runtime acme_tx =
     (Inr (Object_value
        [(''transactionId'', String_value ''a6f4e8''),
         (''date'', String_value ''2024-01-15''),
         (''payeeName'', String_value ''ACME Corp''),
         (''notes'', String_value ''ACME CORP LONDON''),
         (''booked'', Boolean_value True),
         (''transactionAmount'',
            Object_value [(''amount'', Number_value (- 42.5)),
                          (''currency'', String_value ''GBP'')]),
         (''balanceAfterTransaction'',
            Object_value [(''amount'', Number_value 1234.56),
                          (''currency'', String_value ''GBP'')])]),
      early_runtime) \<and>
   fst (call_normalizer late_runtime acme_tx) = fst (call_normalizer early_runtime acme_tx)"
proof -
  have ts: "timestamp acme_tx = Some ''2024-01-15T10:30:00Z''"
    by (simp add: acme_tx_def)
  have out: "map_sum id bank_sync_transaction_value (normalizeTrueLayerTransaction acme_tx) =
     Inr (Object_value
        [(''transactionId'', String_value ''a6f4e8''),
         (''date'', String_value ''2024-01-15''),
         (''payeeName'', String_value ''ACME Corp''),
         (''notes'', String_value ''ACME CORP LONDON''),
         (''booked'', Boolean_value True),
         (''transactionAmount'',
            Object_value [(''amount'', Number_value (- 42.5)),
                          (''currency'', String_value ''GBP'')]),
         (''balanceAfterTransaction'',
            Object_value [(''amount'', Number_value 1234.56),
                          (''currency'', String_value ''GBP'')])])"
    unfolding normalize_Some [OF ts]
    by (simp add: acme_tx_def bank_sync_transaction_value_def optional_string_def
        money_value_def js_or_def truthy_def)
  note det = normalize_deterministic [of early_runtime acme_tx]
  from det have same: "call_normalizer early_runtime acme_tx =
      (map_sum id bank_sync_transaction_value (normalizeTrueLayerTransaction acme_tx),
       early_runtime)"
    by (rule conjunct1)
  from det have other: "fst (call_normalizer late_runtime acme_tx) =
      fst (call_normalizer early_runtime acme_tx)"
    by blast
  from same out other show ?thesis by simp
qed

section \<open>Properties of the credential modal\<close>

lemma truthy_reply:
  "truthy (reply_error (case reply of None \<Rightarrow> Reply None None | Some r \<Rightarrow> r)) =
     reports_error reply"
  by (simp add: reports_error_def truthy_def split: option.splits)

text \<open>
  C10.  With the three replies of the backend named, \<^verbatim>\<open>onSubmit\<close> performs the writes
  \<^verbatim>\<open>tink_clientId\<close>, \<^verbatim>\<open>tink_clientSecret\<close>, \<^verbatim>\<open>tink_market\<close> in this order and stops after
  the first one whose reply reports an error; \<^verbatim>\<open>onSuccess\<close> is called exactly when all
  three were made and none reported an error; and the backend is left in the state the
  last performed write gave it, so earlier writes are not undone.  With an empty field
  nothing is written.
\<close>

theorem onSubmit_writes_in_order:
  assumes s1: "send (backend m) ''tink_clientId'' (clientId m) = (reply1, b1)"
      and s2: "send b1 ''tink_clientSecret'' (clientSecret m) = (reply2, b2)"
      and s3: "send b2 ''tink_market'' (market m) = (reply3, b3)"
  shows
    "(let m' = onSubmit t getSecretsError send m;
          w1 = SecretSet ''tink_clientId'' (clientId m);
          w2 = SecretSet ''tink_clientSecret'' (clientSecret m);
          w3 = SecretSet ''tink_market'' (market m);
          new = (if clientId m = [] \<or> clientSecret m = [] \<or> market m = [] then []
                 else if reports_error reply1 then [w1]
                 else if reports_error reply2 then [w1, w2]
                 else if reports_error reply3 then [w1, w2, w3]
                 else [w1, w2, w3, OnSuccess, Close])
      in effects m' = effects m @ new \<and>
         backend m' =
           (if clientId m = [] \<or> clientSecret m = [] \<or> market m = [] then backend m
            else if reports_error reply1 then b1
            else if reports_error reply2 then b2
            else b3) \<and>
         (OnSuccess \<in> set new \<longleftrightarrow>
            clientId m \<noteq> [] \<and> clientSecret m \<noteq> [] \<and> market m \<noteq> [] \<and>
            \<not> reports_error reply1 \<and> \<not> reports_error reply2 \<and> \<not> reports_error reply3))"
proof -
  have e1: "send_secret_set send ''tink_clientId'' (clientId m) (m\<lparr>isLoading := True\<rparr>) =
      (case reply1 of None \<Rightarrow> Reply None None | Some r \<Rightarrow> r,
       m\<lparr>isLoading := True, backend := b1,
         effects := effects m @ [SecretSet ''tink_clientId'' (clientId m)]\<rparr>)"
    using s1 by (simp add: send_secret_set_def)
  have e2: "\<And>m1. backend m1 = b1 \<Longrightarrow>
      send_secret_set send ''tink_clientSecret'' (clientSecret m) m1 =
      (case reply2 of None \<Rightarrow> Reply None None | Some r \<Rightarrow> r,
       m1\<lparr>backend := b2,
          effects := effects m1 @ [SecretSet ''tink_clientSecret'' (clientSecret m)]\<rparr>)"
    using s2 by (simp add: send_secret_set_def)
  have e3: "\<And>m2. backend m2 = b2 \<Longrightarrow>
      send_secret_set send ''tink_market'' (market m) m2 =
      (case reply3 of None \<Rightarrow> Reply None None | Some r \<Rightarrow> r,
       m2\<lparr>backend := b3,
          effects := effects m2 @ [SecretSet ''tink_market'' (market m)]\<rparr>)"
    using s3 by (simp add: send_secret_set_def)
  show ?thesis
    by (simp add: onSubmit_def Let_def e1 e2 e3 truthy_reply)
qed

theorem onSubmit_writes_in_order_witness:
  "failing_send ''tink_clientSecret'' (backend filled_modal) ''tink_clientId''
       (clientId filled_modal) =
     (None, [''tink_clientId'' \<mapsto> ''id-1'']) \<and>
   failing_send ''tink_clientSecret'' [''tink_clientId'' \<mapsto> ''id-1''] ''tink_clientSecret''
       (clientSecret filled_modal) =
     (Some (Reply (Some ''unauthorized'') (Some ''token-expired'')),
      [''tink_clientId'' \<mapsto> ''id-1'']) \<and>
   failing_send ''tink_clientSecret'' [''tink_clientId'' \<mapsto> ''id-1''] ''tink_market''
       (market filled_modal) =
     (None, [''tink_clientId'' \<mapsto> ''id-1'', ''tink_market'' \<mapsto> ''GB'']) \<and>
   effects (onSubmit id secrets_error_text (failing_send ''tink_clientSecret'') filled_modal) =
     [SecretSet ''tink_clientId'' ''id-1'', SecretSet ''tink_clientSecret'' ''s3cret''] \<and>
   backend (onSubmit id secrets_error_text (failing_send ''tink_clientSecret'') filled_modal) =
     [''tink_clientId'' \<mapsto> ''id-1'']"
proof -
  have s1: "failing_send ''tink_clientSecret'' (backend filled_modal) ''tink_clientId''
       (clientId filled_modal) = (None, [''tink_clientId'' \<mapsto> ''id-1''])"
    by (simp add: failing_send_def filled_modal_def)
  have s2: "failing_send ''tink_clientSecret'' [''tink_clientId'' \<mapsto> ''id-1'']
       ''tink_clientSecret'' (clientSecret filled_modal) =
     (Some (Reply (Some ''unauthorized'') (Some ''token-expired'')),
      [''tink_clientId'' \<mapsto> ''id-1''])"
    by (simp add: failing_send_def)
  have s3: "failing_send ''tink_clientSecret'' [''tink_clientId'' \<mapsto> ''id-1''] ''tink_market''
       (market filled_modal) =
     (None, [''tink_clientId'' \<mapsto> ''id-1'', ''tink_market'' \<mapsto> ''GB''])"
    by (simp add: failing_send_def filled_modal_def)
  have filled: "clientId filled_modal = ''id-1''" "clientSecret filled_modal = ''s3cret''"
    "market filled_modal = ''GB''" "effects filled_modal = []"
    by (simp_all add: filled_modal_def)
  have r: "\<not> reports_error None"
    "reports_error (Some (Reply (Some ''unauthorized'') (Some ''token-expired'')))"
    by (simp_all add: reports_error_def truthy_def)
  from onSubmit_writes_in_order [OF s1 s2 s3, of id secrets_error_text]
  have "effects (onSubmit id secrets_error_text (failing_send ''tink_clientSecret'')
                   filled_modal) =
          [SecretSet ''tink_clientId'' ''id-1'', SecretSet ''tink_clientSecret'' ''s3cret''] \<and>
        backend (onSubmit id secrets_error_text (failing_send ''tink_clientSecret'')
                   filled_modal) = [''tink_clientId'' \<mapsto> ''id-1'']"
    by (simp add: Let_def filled r)
  with s1 s2 s3 show ?thesis by simp
qed

end
